theory Spec2Isabelle
  imports Complex_Main "HOL-Library.Sublist"
begin

section \<open>Bike sharing dashboard (app.py)\<close>

text \<open>
  The script \<^verbatim>\<open>app.py\<close> loads \<^verbatim>\<open>day.csv\<close>, filters it by year and season, shows four
  metrics and six charts, and bins the daily counts into three clusters.  The tables are
  modelled as lists of rows, pandas' missing value (NaN) as \<open>None\<close>, the data frames the
  script creates as objects in a heap (a list of frames, addressed by index), and every
  exception as a value of type \<open>error\<close>.  Arithmetic on floats (the mean, the quantiles,
  the bin edges) is exact arithmetic on rationals, extended with NaN.
\<close>

subsection \<open>Values\<close>

datatype error = FileNotFoundError | ValueError string

text \<open>A Python value of the year selector: the string \<^verbatim>\<open>"All"\<close> or an integer year.\<close>

datatype pyval = PyStr string | PyInt int

text \<open>A float: a rational, or NaN.  Comparisons with NaN are false, as in IEEE.\<close>

datatype float = NaN | Fin rat

fun flt :: "float \<Rightarrow> float \<Rightarrow> bool" where
  "flt (Fin a) (Fin b) = (a < b)"
| "flt _ _ = False"

fun feq :: "float \<Rightarrow> float \<Rightarrow> bool" where
  "feq (Fin a) (Fin b) = (a = b)"
| "feq _ _ = False"

definition of_cnt :: "int \<Rightarrow> float" where
  "of_cnt v = Fin (of_int v)"

text \<open>The value of \<^verbatim>\<open>dteday\<close> after \<^verbatim>\<open>pd.to_datetime\<close>: year, month, day.\<close>

datatype timestamp = Timestamp (dt_year: int) (dt_month: int) (dt_day: int)

subsection \<open>Tables\<close>

text \<open>A row of \<^verbatim>\<open>day.csv\<close> as \<^verbatim>\<open>pd.read_csv\<close> and \<^verbatim>\<open>pd.to_datetime\<close> return it.\<close>

record csv_row =
  csv_dteday :: timestamp
  csv_season :: int
  csv_weathersit :: int
  csv_workingday :: int
  csv_temp :: rat
  csv_hum :: rat
  csv_cnt :: int

text \<open>A row of the table \<^verbatim>\<open>load_data\<close> returns.\<close>

record row =
  dteday :: timestamp
  season :: "string option"
  weathersit :: "string option"
  workingday :: int
  temp :: rat
  hum :: rat
  cnt :: int
  month :: int
  year :: int
  workingday_label :: "string option"

text \<open>
  A data frame: its rows, and the column \<^verbatim>\<open>cnt_cluster\<close> once it has been assigned
  (a categorical: one code per row, \<open>-1\<close> for a missing value, and the categories).
\<close>

record categorical =
  codes :: "int list"
  categories :: "string list"

record frame =
  rows :: "row list"
  cnt_cluster :: "categorical option"

type_synonym heap = "frame list"

subsection \<open>load_data\<close>

definition season_map :: "int \<rightharpoonup> string" where
  "season_map = map_of [(1, ''Spring''), (2, ''Summer''), (3, ''Fall''), (4, ''Winter'')]"

definition weather_map :: "int \<rightharpoonup> string" where
  "weather_map = map_of
     [(1, ''Clear''), (2, ''Mist/Cloudy''), (3, ''Light Rain/Snow''), (4, ''Heavy Rain/Snow'')]"

definition workingday_map :: "int \<rightharpoonup> string" where
  "workingday_map = map_of [(0, ''Akhir Pekan/Hari Libur''), (1, ''Hari Kerja'')]"

text \<open>
  \<^verbatim>\<open>Series.map(dict)\<close> looks every value up in the dictionary; a value that is not a key
  becomes NaN.  The columns are assigned in the order of the source, row by row here.
\<close>

definition prep_row :: "csv_row \<Rightarrow> row" where
  "prep_row c =
     \<lparr> dteday = csv_dteday c,
       season = season_map (csv_season c),
       weathersit = weather_map (csv_weathersit c),
       workingday = csv_workingday c,
       temp = csv_temp c,
       hum = csv_hum c,
       cnt = csv_cnt c,
       month = dt_month (csv_dteday c),
       year = dt_year (csv_dteday c),
       workingday_label = workingday_map (csv_workingday c) \<rparr>"

text \<open>
  The file system maps a path to the rows of the file there; \<^verbatim>\<open>pd.read_csv\<close> raises
  \<^verbatim>\<open>FileNotFoundError\<close> for a path with no file.
\<close>

definition read_csv :: "(string \<rightharpoonup> csv_row list) \<Rightarrow> string \<Rightarrow> error + csv_row list" where
  "read_csv fs path = (case fs path of None \<Rightarrow> Inl FileNotFoundError | Some t \<Rightarrow> Inr t)"

definition load_data :: "(string \<rightharpoonup> csv_row list) \<Rightarrow> string \<Rightarrow> error + row list" where
  "load_data fs path =
     (case read_csv fs path of Inl e \<Rightarrow> Inl e | Inr df \<Rightarrow> Inr (map prep_row df))"

subsection \<open>Frames in the heap\<close>

definition new_frame :: "heap \<Rightarrow> frame \<Rightarrow> heap \<times> nat" where
  "new_frame h f = (h @ [f], length h)"

text \<open>\<^verbatim>\<open>df.copy()\<close>: a new frame with the same contents.\<close>

definition df_copy :: "heap \<Rightarrow> nat \<Rightarrow> heap \<times> nat" where
  "df_copy h a = new_frame h (h ! a)"

text \<open>\<^verbatim>\<open>df[mask]\<close>: a new frame with the rows whose mask is true, in their order.\<close>

definition mask_rows :: "'a list \<Rightarrow> bool list \<Rightarrow> 'a list" where
  "mask_rows xs msk = map fst (filter snd (zip xs msk))"

definition getitem_mask :: "heap \<Rightarrow> nat \<Rightarrow> bool list \<Rightarrow> heap \<times> nat" where
  "getitem_mask h a msk =
     new_frame h \<lparr> rows = mask_rows (rows (h ! a)) msk,
                   cnt_cluster = map_option (\<lambda>c. c\<lparr>codes := mask_rows (codes c) msk\<rparr>)
                                   (cnt_cluster (h ! a)) \<rparr>"

text \<open>\<^verbatim>\<open>df["cnt_cluster"] = values\<close>: the frame at the address is changed in place.\<close>

definition setitem_cnt_cluster :: "heap \<Rightarrow> nat \<Rightarrow> categorical \<Rightarrow> heap" where
  "setitem_cnt_cluster h a c = h[a := (h ! a)\<lparr>cnt_cluster := Some c\<rparr>]"

subsection \<open>The filter\<close>

text \<open>\<^verbatim>\<open>Series.isin(values)\<close>: NaN is in no list of strings.\<close>

definition isin :: "string option \<Rightarrow> string list \<Rightarrow> bool" where
  "isin v values = (case v of None \<Rightarrow> False | Some s \<Rightarrow> s \<in> set values)"

text \<open>
  Lines 52 to 54: \<^verbatim>\<open>if tahun != "All": df = df[df["year"] == tahun]\<close>, then
  \<^verbatim>\<open>df = df[df["season"].isin(musim)]\<close>.  The result is the heap and the address the
  variable \<^verbatim>\<open>df\<close> is bound to afterwards.
\<close>

definition filter_block :: "heap \<Rightarrow> nat \<Rightarrow> pyval \<Rightarrow> string list \<Rightarrow> heap \<times> nat" where
  "filter_block h df tahun musim =
     (let (h1, df1) =
            (if tahun \<noteq> PyStr ''All''
             then getitem_mask h df (map (\<lambda>r. PyInt (year r) = tahun) (rows (h ! df)))
             else (h, df))
      in getitem_mask h1 df1 (map (\<lambda>r. isin (season r) musim) (rows (h1 ! df1))))"

text \<open>The condition a row has to meet, as the specification words it.\<close>

definition selected :: "pyval \<Rightarrow> string list \<Rightarrow> row \<Rightarrow> bool" where
  "selected tahun musim r =
     ((tahun = PyStr ''All'' \<or> PyInt (year r) = tahun) \<and> season r \<in> Some ` set musim)"

subsection \<open>The metrics\<close>

text \<open>
  \<^verbatim>\<open>Series.mean()\<close>, \<^verbatim>\<open>Series.max()\<close> and \<^verbatim>\<open>Series.min()\<close> of an integer column: NaN
  for a column with no rows.
\<close>

definition series_mean :: "int list \<Rightarrow> float" where
  "series_mean xs = (if xs = [] then NaN else Fin (of_int (sum_list xs) / of_nat (length xs)))"

definition series_max :: "int list \<Rightarrow> float" where
  "series_max xs = (case xs of [] \<Rightarrow> NaN | x # t \<Rightarrow> of_cnt (fold max t x))"

definition series_min :: "int list \<Rightarrow> float" where
  "series_min xs = (case xs of [] \<Rightarrow> NaN | x # t \<Rightarrow> of_cnt (fold min t x))"

record metrics =
  total_hari :: nat
  rata_rata :: float
  maksimum :: float
  minimum :: float

text \<open>Lines 69 to 77: the four values handed to \<^verbatim>\<open>st.metric\<close>.\<close>

definition metrics_panel :: "row list \<Rightarrow> metrics" where
  "metrics_panel df =
     \<lparr> total_hari = length df,
       rata_rata = series_mean (map cnt df),
       maksimum = series_max (map cnt df),
       minimum = series_min (map cnt df) \<rparr>"

subsection \<open>What the page shows\<close>

text \<open>
  The data each plotting call receives.  The plotting library and the page are outside
  the script: a call is modelled by the data it is given and returns normally.  The
  calls that show fixed text (titles, captions, notes) take no data and are left out.
\<close>

datatype chart =
    Scatterplot "(rat \<times> int) list"
  | Boxplot "(string option \<times> int) list"
  | Lineplot "(int \<times> float) list"
  | Countplot "string option list"
  | Barplot "(string option \<times> int \<times> string option) list"

datatype element = StError string | StMetric string float | StPyplot chart

definition metric_elements :: "metrics \<Rightarrow> element list" where
  "metric_elements m =
     [StMetric ''Total Hari'' (Fin (of_nat (total_hari m))),
      StMetric ''Rata-rata Peminjaman / Hari'' (rata_rata m),
      StMetric ''Maksimum Peminjaman / Hari'' (maksimum m),
      StMetric ''Minimum Peminjaman / Hari'' (minimum m)]"

text \<open>\<^verbatim>\<open>df.groupby("month", as_index=False)["cnt"].mean()\<close>: one row per month present.\<close>

definition monthly :: "row list \<Rightarrow> (int \<times> float) list" where
  "monthly df =
     map (\<lambda>m. (m, series_mean (map cnt (filter (\<lambda>r. month r = m) df))))
       (sort (remdups (map month df)))"

definition charts :: "row list \<Rightarrow> element list" where
  "charts df =
     [StPyplot (Scatterplot (map (\<lambda>r. (temp r, cnt r)) df)),
      StPyplot (Scatterplot (map (\<lambda>r. (hum r, cnt r)) df)),
      StPyplot (Boxplot (map (\<lambda>r. (workingday_label r, cnt r)) df)),
      StPyplot (Lineplot (monthly df))]"

subsection \<open>The clustering: pd.qcut and pd.cut\<close>

text \<open>
  \<^verbatim>\<open>np.linspace(start, stop, num)\<close> with the end point: \<open>num\<close> evenly spaced values, the
  last one set to \<open>stop\<close>.
\<close>

definition linspace :: "rat \<Rightarrow> rat \<Rightarrow> nat \<Rightarrow> rat list" where
  "linspace start stop num =
     (let step = (stop - start) / of_nat (num - 1);
          y = map (\<lambda>i. of_nat i * step + start) [0..<num]
      in if 1 < num then y[num - 1 := stop] else y)"

text \<open>
  \<^verbatim>\<open>Series.quantile(q)\<close> with linear interpolation: the value at position \<open>q * (n - 1)\<close> of
  the sorted column, between the two neighbours when the position is not whole; NaN for
  a column with no rows.
\<close>

definition quantile :: "int list \<Rightarrow> rat \<Rightarrow> float" where
  "quantile xs q =
     (if xs = [] then NaN
      else let s = sort xs;
               n = length s;
               h = q * of_nat (n - 1);
               lo = nat \<lfloor>h\<rfloor>;
               hi = min (lo + 1) (n - 1);
               g = h - of_nat lo
           in Fin (of_int (s ! lo) + (of_int (s ! hi) - of_int (s ! lo)) * g))"

text \<open>
  \<^verbatim>\<open>bins.searchsorted(x, side="left")\<close> on ascending bin edges: the number of edges
  below the value.
\<close>

fun searchsorted_left :: "float list \<Rightarrow> float \<Rightarrow> nat" where
  "searchsorted_left [] v = 0"
| "searchsorted_left (b # bs) v = (if flt b v then Suc (searchsorted_left bs v) else 0)"

text \<open>
  The bin of one value in \<^verbatim>\<open>_bins_to_cuts\<close> (with \<^verbatim>\<open>right=True\<close>): its position among
  the edges, set to 1 for a value equal to the first edge when the lowest edge is
  included.
\<close>

definition bin_id :: "float list \<Rightarrow> bool \<Rightarrow> float \<Rightarrow> nat" where
  "bin_id bins include_lowest v =
     (case bins of
        [] \<Rightarrow> 0
      | b0 # _ \<Rightarrow> if include_lowest \<and> feq v b0 then 1 else searchsorted_left bins v)"

text \<open>
  The code of one value: \<open>-1\<close> for NaN and for a value outside all bins (position 0 or
  past the last edge), else the number of its bin, counted from 0.
\<close>

definition cut_code :: "float list \<Rightarrow> bool \<Rightarrow> float \<Rightarrow> int" where
  "cut_code bins include_lowest v =
     (let i = bin_id bins include_lowest v
      in (if v = NaN \<or> i = length bins \<or> i = 0 then 0 else int i) - 1)"

text \<open>
  \<^verbatim>\<open>_bins_to_cuts\<close>: duplicate edges raise (NaN edges count as one value), and so do
  labels that are not unique or not one fewer than the edges.
\<close>

definition bins_to_cuts ::
  "float list \<Rightarrow> float list \<Rightarrow> string list \<Rightarrow> bool \<Rightarrow> error + categorical" where
  "bins_to_cuts x bins labels include_lowest =
     (if length (remdups bins) < length bins \<and> length bins \<noteq> 2
        then Inl (ValueError ''Bin edges must be unique'')
      else if length (remdups labels) \<noteq> length labels
        then Inl (ValueError ''labels must be unique if ordered=True'')
      else if length labels \<noteq> length bins - 1
        then Inl (ValueError ''Bin labels must be one fewer than the number of bin edges'')
      else Inr \<lparr> codes = map (cut_code bins include_lowest) x, categories = labels \<rparr>)"

text \<open>\<^verbatim>\<open>pd.qcut(x, q, labels)\<close>: the edges are the quantiles at \<open>0, 1/q, ..., 1\<close>.\<close>

definition pd_qcut :: "int list \<Rightarrow> nat \<Rightarrow> string list \<Rightarrow> error + categorical" where
  "pd_qcut x q labels =
     (let quantiles = linspace 0 1 (q + 1);
          bins = map (quantile x) quantiles
      in bins_to_cuts (map of_cnt x) bins labels True)"

text \<open>
  \<^verbatim>\<open>_nbins_to_bins\<close> (with \<^verbatim>\<open>right=True\<close>): equally wide bins from the minimum to the
  maximum, the first edge lowered by 0.1 percent of the range; when all values are equal
  the range is widened by 0.1 percent of the value on both sides first.
\<close>

definition nbins_to_bins :: "int list \<Rightarrow> nat \<Rightarrow> error + float list" where
  "nbins_to_bins x nbins =
     (if nbins < 1 then Inl (ValueError ''`bins` should be a positive integer.'')
      else case x of
        [] \<Rightarrow> Inl (ValueError ''Cannot cut empty array'')
      | x0 # t \<Rightarrow>
          let mn = of_int (fold min t x0) :: rat;
              mx = of_int (fold max t x0) :: rat
          in if mn = mx
             then let mn' = mn - (if mn \<noteq> 0 then 0.001 * \<bar>mn\<bar> else 0.001);
                      mx' = mx + (if mx \<noteq> 0 then 0.001 * \<bar>mx\<bar> else 0.001)
                  in Inr (map Fin (linspace mn' mx' (nbins + 1)))
             else let bins = linspace mn mx (nbins + 1);
                      adj = (mx - mn) * 0.001
                  in Inr (map Fin (bins[0 := bins ! 0 - adj])))"

text \<open>\<^verbatim>\<open>pd.cut(x, bins=nbins, labels, include_lowest)\<close>.\<close>

definition pd_cut :: "int list \<Rightarrow> nat \<Rightarrow> string list \<Rightarrow> bool \<Rightarrow> error + categorical" where
  "pd_cut x nbins labels include_lowest =
     (case nbins_to_bins x nbins of
        Inl e \<Rightarrow> Inl e
      | Inr bins \<Rightarrow> bins_to_cuts (map of_cnt x) bins labels include_lowest)"

definition cluster_labels :: "string list" where
  "cluster_labels = [''Rendah'', ''Sedang'', ''Tinggi'']"

text \<open>
  Lines 151 to 160: \<^verbatim>\<open>pd.qcut\<close>, and \<^verbatim>\<open>pd.cut\<close> in the handler of \<^verbatim>\<open>ValueError\<close>.  An
  exception raised in the handler leaves the block.
\<close>

definition cnt_cluster_block :: "int list \<Rightarrow> error + categorical" where
  "cnt_cluster_block x =
     (case pd_qcut x 3 cluster_labels of
        Inr c \<Rightarrow> Inr c
      | Inl (ValueError _) \<Rightarrow> pd_cut x 3 cluster_labels True
      | Inl e \<Rightarrow> Inl e)"

text \<open>The label of each row of a categorical column: NaN for the code \<open>-1\<close>.\<close>

definition cat_values :: "categorical \<Rightarrow> string option list" where
  "cat_values c = map (\<lambda>k. if k < 0 then None else Some (categories c ! nat k)) (codes c)"

definition cluster_charts :: "row list \<Rightarrow> categorical \<Rightarrow> element list" where
  "cluster_charts df c =
     [StPyplot (Countplot (cat_values c)),
      StPyplot (Barplot (map (\<lambda>(r, l). (season r, cnt r, l)) (zip df (cat_values c))))]"

subsection \<open>The script\<close>

text \<open>
  How a run of the script ends: it reaches its last line, \<^verbatim>\<open>st.stop()\<close> ends it, or an
  exception leaves it.
\<close>

datatype outcome = Completed | Stopped | Raised error

record run =
  elements :: "element list"
  outcome :: outcome
  final_heap :: heap

text \<open>
  Lines 41 to 197, for the table \<^verbatim>\<open>load_data\<close> returned: the table is the frame at
  address 0 (\<^verbatim>\<open>df_raw\<close>), \<^verbatim>\<open>df\<close> starts as a copy of it.
\<close>

definition dashboard :: "row list \<Rightarrow> pyval \<Rightarrow> string list \<Rightarrow> run" where
  "dashboard t tahun musim =
     (let (h0, df_raw) = new_frame [] \<lparr> rows = t, cnt_cluster = None \<rparr>;
          (h1, df0) = df_copy h0 df_raw;
          (h2, df) = filter_block h1 df0 tahun musim;
          view = rows (h2 ! df);
          shown = metric_elements (metrics_panel view) @ charts view
      in case cnt_cluster_block (map cnt view) of
           Inl e \<Rightarrow> \<lparr> elements = shown, outcome = Raised e, final_heap = h2 \<rparr>
         | Inr c \<Rightarrow>
             \<lparr> elements = shown @ cluster_charts view c,
               outcome = Completed,
               final_heap = setitem_cnt_cluster h2 df c \<rparr>)"

text \<open>Lines 35 to 39 and the rest of the script, for the files present.\<close>

definition not_found_message :: string where
  "not_found_message =
     ''File 'day.csv' tidak ditemukan. Pastikan file berada di folder yang sama dengan app.py.''"

definition app :: "(string \<rightharpoonup> csv_row list) \<Rightarrow> pyval \<Rightarrow> string list \<Rightarrow> run" where
  "app fs tahun musim =
     (case load_data fs ''day.csv'' of
        Inl FileNotFoundError \<Rightarrow>
          \<lparr> elements = [StError not_found_message], outcome = Stopped, final_heap = [] \<rparr>
      | Inl e \<Rightarrow> \<lparr> elements = [], outcome = Raised e, final_heap = [] \<rparr>
      | Inr df_raw \<Rightarrow> dashboard df_raw tahun musim)"

subsection \<open>A small table\<close>

text \<open>
  Three days: one of spring 2011, one of summer 2012, and one whose season and weather
  codes are not in the lookup tables.
\<close>

definition example_csv :: "csv_row list" where
  "example_csv =
     [\<lparr>csv_dteday = Timestamp 2011 1 1, csv_season = 1, csv_weathersit = 2,
       csv_workingday = 0, csv_temp = 1 / 2, csv_hum = 1 / 4, csv_cnt = 100\<rparr>,
      \<lparr>csv_dteday = Timestamp 2012 7 1, csv_season = 2, csv_weathersit = 1,
       csv_workingday = 1, csv_temp = 3 / 4, csv_hum = 1 / 2, csv_cnt = 200\<rparr>,
      \<lparr>csv_dteday = Timestamp 2012 10 1, csv_season = 7, csv_weathersit = 0,
       csv_workingday = 1, csv_temp = 1 / 4, csv_hum = 1 / 2, csv_cnt = 300\<rparr>]"

definition example_fs :: "string \<rightharpoonup> csv_row list" where
  "example_fs = [''day.csv'' \<mapsto> example_csv]"

definition example_table :: "row list" where
  "example_table =
     [\<lparr>dteday = Timestamp 2011 1 1, season = Some ''Spring'',
       weathersit = Some ''Mist/Cloudy'', workingday = 0, temp = 1 / 2, hum = 1 / 4,
       cnt = 100, month = 1, year = 2011,
       workingday_label = Some ''Akhir Pekan/Hari Libur''\<rparr>,
      \<lparr>dteday = Timestamp 2012 7 1, season = Some ''Summer'', weathersit = Some ''Clear'',
       workingday = 1, temp = 3 / 4, hum = 1 / 2, cnt = 200, month = 7, year = 2012,
       workingday_label = Some ''Hari Kerja''\<rparr>,
      \<lparr>dteday = Timestamp 2012 10 1, season = None, weathersit = None, workingday = 1,
       temp = 1 / 4, hum = 1 / 2, cnt = 300, month = 10, year = 2012,
       workingday_label = Some ''Hari Kerja''\<rparr>]"

section \<open>Properties\<close>

lemma mask_rows_map: "mask_rows xs (map P xs) = filter P xs"
  by (induction xs) (simp_all add: mask_rows_def)

lemma isin_iff: "isin v values \<longleftrightarrow> v \<in> Some ` set values"
  by (cases v) (auto simp: isin_def)

lemma selected_isin:
  "selected t musim = (\<lambda>r. (t = PyStr ''All'' \<or> PyInt (year r) = t) \<and> isin (season r) musim)"
  by (rule ext) (simp add: selected_def isin_iff)

lemma getitem_mask_frame:
  assumes "getitem_mask h a (map P (rows (h ! a))) = (h', a')"
  shows "rows (h' ! a') = filter P (rows (h ! a))"
    and "a' = length h"
    and "length h' = Suc (length h)"
    and "i < length h \<Longrightarrow> h' ! i = h ! i"
  using assms by (auto simp: getitem_mask_def new_frame_def mask_rows_map nth_append)

lemma filter_block_rows:
  assumes "filter_block h df tahun musim = (h', df')"
  shows "rows (h' ! df') = filter (selected tahun musim) (rows (h ! df))"
proof (cases "tahun = PyStr ''All''")
  case True
  with assms have "getitem_mask h df (map (\<lambda>r. isin (season r) musim) (rows (h ! df))) = (h', df')"
    by (simp add: filter_block_def)
  from getitem_mask_frame(1)[OF this] True show ?thesis
    by (simp add: selected_isin)
next
  case False
  obtain h1 df1 where
    g1: "getitem_mask h df (map (\<lambda>r. PyInt (year r) = tahun) (rows (h ! df))) = (h1, df1)"
    by (cases "getitem_mask h df (map (\<lambda>r. PyInt (year r) = tahun) (rows (h ! df)))")
  with assms False
  have g2: "getitem_mask h1 df1 (map (\<lambda>r. isin (season r) musim) (rows (h1 ! df1))) = (h', df')"
    by (simp add: filter_block_def)
  from getitem_mask_frame(1)[OF g1] getitem_mask_frame(1)[OF g2] False show ?thesis
    by (simp add: selected_isin conj_commute)
qed

subsection \<open>The loader\<close>

lemma load_data_present:
  "fs path = Some csv \<Longrightarrow> load_data fs path = Inr (map prep_row csv)"
  by (simp add: load_data_def read_csv_def)

lemma season_map_cases:
  "season_map k =
     (if k = 1 then Some ''Spring'' else if k = 2 then Some ''Summer''
      else if k = 3 then Some ''Fall'' else if k = 4 then Some ''Winter'' else None)"
  by (simp add: season_map_def)

lemma weather_map_cases:
  "weather_map k =
     (if k = 1 then Some ''Clear'' else if k = 2 then Some ''Mist/Cloudy''
      else if k = 3 then Some ''Light Rain/Snow'' else if k = 4 then Some ''Heavy Rain/Snow''
      else None)"
  by (simp add: weather_map_def)

text \<open>
  C7.  For a file that is present the loader returns a table with one row per input row,
  whatever the codes are (no code makes it raise).  The season codes 1, 2, 3, 4 become
  Spring, Summer, Fall, Winter, the weather codes 1, 2, 3, 4 become Clear, Mist/Cloudy,
  Light Rain/Snow, Heavy Rain/Snow, and every other code becomes the missing value.
\<close>

theorem load_data_category_mapping:
  assumes "fs path = Some csv"
  shows "\<exists>t. load_data fs path = Inr t \<and> length t = length csv \<and>
           (\<forall>i<length csv.
              season (t ! i) =
                (if csv_season (csv ! i) = 1 then Some ''Spring''
                 else if csv_season (csv ! i) = 2 then Some ''Summer''
                 else if csv_season (csv ! i) = 3 then Some ''Fall''
                 else if csv_season (csv ! i) = 4 then Some ''Winter''
                 else None) \<and>
              weathersit (t ! i) =
                (if csv_weathersit (csv ! i) = 1 then Some ''Clear''
                 else if csv_weathersit (csv ! i) = 2 then Some ''Mist/Cloudy''
                 else if csv_weathersit (csv ! i) = 3 then Some ''Light Rain/Snow''
                 else if csv_weathersit (csv ! i) = 4 then Some ''Heavy Rain/Snow''
                 else None))"
proof -
  have "load_data fs path = Inr (map prep_row csv)"
    using assms by (rule load_data_present)
  moreover have "season (prep_row c) = season_map (csv_season c)"
    and "weathersit (prep_row c) = weather_map (csv_weathersit c)" for c
    by (simp_all add: prep_row_def)
  ultimately show ?thesis
    by (simp add: season_map_cases weather_map_cases)
qed

theorem load_data_category_mapping_witness:
  "load_data example_fs ''day.csv'' = Inr example_table"
  using load_data_category_mapping [of example_fs "''day.csv''" example_csv]
  by (simp add: example_fs_def example_csv_def example_table_def load_data_def read_csv_def
      prep_row_def season_map_def weather_map_def workingday_map_def)

text \<open>
  C8.  For a file that is present, every row whose working-day flag is 0 or 1 gets a
  label: \<^verbatim>\<open>Hari Kerja\<close> (working day) for 1 and \<^verbatim>\<open>Akhir Pekan/Hari Libur\<close>
  (weekend or holiday) for 0.  These two strings are the script's wording of the two
  labels.
\<close>

theorem load_data_workingday_label:
  assumes "fs path = Some csv"
    and "i < length csv"
    and "csv_workingday (csv ! i) = 0 \<or> csv_workingday (csv ! i) = 1"
  shows "\<exists>t. load_data fs path = Inr t \<and>
           workingday_label (t ! i) =
             Some (if csv_workingday (csv ! i) = 1 then ''Hari Kerja''
                   else ''Akhir Pekan/Hari Libur'') \<and>
           workingday_label (t ! i) \<in> {Some ''Hari Kerja'', Some ''Akhir Pekan/Hari Libur''}"
proof -
  have "load_data fs path = Inr (map prep_row csv)"
    using assms(1) by (rule load_data_present)
  moreover have "workingday_label (prep_row c) = workingday_map (csv_workingday c)" for c
    by (simp add: prep_row_def)
  ultimately show ?thesis
    using assms(2,3) by (auto simp: workingday_map_def)
qed

theorem load_data_workingday_label_witness:
  "map workingday_label (projr (load_data example_fs ''day.csv'')) =
     [Some ''Akhir Pekan/Hari Libur'', Some ''Hari Kerja'', Some ''Hari Kerja'']"
  using load_data_workingday_label [of example_fs "''day.csv''" example_csv 1]
  by (simp add: example_fs_def example_csv_def load_data_def read_csv_def prep_row_def
      workingday_map_def)

subsection \<open>The filter\<close>

text \<open>
  C1.  After the filter block the variable \<^verbatim>\<open>df\<close> holds exactly the rows of the table it
  held before that meet the condition (the selector is \<^verbatim>\<open>"All"\<close> or equals the row's
  year, and the row's season is one of the selected seasons), in the order of the table.
\<close>

theorem filter_block_correct:
  assumes "filter_block h df tahun musim = (h', df')"
  shows "rows (h' ! df') = filter (selected tahun musim) (rows (h ! df)) \<and>
         subseq (rows (h' ! df')) (rows (h ! df))"
  using filter_block_rows[OF assms] by simp

lemma example_filter_block:
  "filter_block [\<lparr>rows = example_table, cnt_cluster = None\<rparr>] 0 (PyInt 2011) [''Spring''] =
     ([\<lparr>rows = example_table, cnt_cluster = None\<rparr>,
       \<lparr>rows = [example_table ! 0], cnt_cluster = None\<rparr>,
       \<lparr>rows = [example_table ! 0], cnt_cluster = None\<rparr>], 2)"
  by (simp add: filter_block_def getitem_mask_def new_frame_def mask_rows_def isin_def
      example_table_def)

theorem filter_block_correct_witness:
  "rows ([\<lparr>rows = example_table, cnt_cluster = None\<rparr>,
          \<lparr>rows = [example_table ! 0], cnt_cluster = None\<rparr>,
          \<lparr>rows = [example_table ! 0], cnt_cluster = None\<rparr>] ! 2) =
     filter (selected (PyInt 2011) [''Spring''])
       (rows ([\<lparr>rows = example_table, cnt_cluster = None\<rparr>] ! 0)) \<and>
   map cnt (filter (selected (PyInt 2011) [''Spring'']) example_table) = [100]"
  using filter_block_correct [OF example_filter_block]
  by (simp add: example_table_def selected_def)

text \<open>
  C10.  A row whose season code is not one of 1 to 4 gets the missing value as its season,
  and is in no filtered view, whatever the year selector and the selected seasons are.
\<close>

theorem unmapped_season_never_selected:
  assumes "filter_block h df tahun musim = (h', df')"
    and "csv_season c < 1 \<or> 4 < csv_season c"
  shows "season (prep_row c) = None \<and> prep_row c \<notin> set (rows (h' ! df'))"
proof -
  have none: "season (prep_row c) = None"
    using assms(2) by (auto simp: prep_row_def season_map_cases)
  then have "\<not> selected tahun musim (prep_row c)"
    by (simp add: selected_def)
  then show ?thesis
    using none filter_block_rows[OF assms(1)] by simp
qed

theorem unmapped_season_never_selected_witness:
  "season (prep_row (example_csv ! 2)) = None \<and>
   prep_row (example_csv ! 2) \<notin>
     set (rows ([\<lparr>rows = example_table, cnt_cluster = None\<rparr>,
                 \<lparr>rows = [example_table ! 0], cnt_cluster = None\<rparr>,
                 \<lparr>rows = [example_table ! 0], cnt_cluster = None\<rparr>] ! 2))"
  using unmapped_season_never_selected [OF example_filter_block, of "example_csv ! 2"]
  by (simp add: example_csv_def)

subsection \<open>The missing file\<close>

text \<open>
  C6.  When there is no file \<^verbatim>\<open>day.csv\<close>, the run shows the error message and nothing
  else (no metric and no chart), and \<^verbatim>\<open>st.stop()\<close> ends it: no exception leaves the
  script.
\<close>

theorem missing_file_stops:
  assumes "fs ''day.csv'' = None"
  shows "app fs tahun musim =
           \<lparr>elements = [StError not_found_message], outcome = Stopped, final_heap = []\<rparr>"
  using assms by (simp add: app_def load_data_def read_csv_def)

theorem missing_file_stops_witness:
  "app Map.empty (PyInt 2011) [''Spring''] =
     \<lparr>elements = [StError not_found_message], outcome = Stopped, final_heap = []\<rparr>"
  using missing_file_stops [of Map.empty "PyInt 2011" "[''Spring'']"] by simp

subsection \<open>The cached table\<close>

lemma getitem_mask_heap:
  assumes "getitem_mask h a msk = (h', a')"
  shows "a' = length h \<and> length h' = Suc (length h) \<and> (\<forall>i<length h. h' ! i = h ! i)"
  using assms by (auto simp: getitem_mask_def new_frame_def nth_append)

lemma filter_block_heap:
  assumes "filter_block h df tahun musim = (h', df')"
  shows "length h \<le> df' \<and> df' < length h' \<and> (\<forall>i<length h. h' ! i = h ! i)"
proof (cases "tahun = PyStr ''All''")
  case True
  with assms
  have "getitem_mask h df (map (\<lambda>r. isin (season r) musim) (rows (h ! df))) = (h', df')"
    by (simp add: filter_block_def)
  from getitem_mask_heap[OF this] show ?thesis
    by simp
next
  case False
  obtain h1 df1 where
    g1: "getitem_mask h df (map (\<lambda>r. PyInt (year r) = tahun) (rows (h ! df))) = (h1, df1)"
    by (cases "getitem_mask h df (map (\<lambda>r. PyInt (year r) = tahun) (rows (h ! df)))")
  with assms False
  have g2: "getitem_mask h1 df1 (map (\<lambda>r. isin (season r) musim) (rows (h1 ! df1))) = (h', df')"
    by (simp add: filter_block_def)
  from getitem_mask_heap[OF g1] getitem_mask_heap[OF g2] show ?thesis
    by simp
qed

lemma dashboard_master:
  "final_heap (dashboard t tahun musim) ! 0 = \<lparr>rows = t, cnt_cluster = None\<rparr>"
proof -
  let ?f = "\<lparr>rows = t, cnt_cluster = None\<rparr>"
  obtain h2 df where fb: "filter_block [?f, ?f] 1 tahun musim = (h2, df)"
    by (cases "filter_block [?f, ?f] 1 tahun musim")
  from filter_block_heap[OF fb] have df: "2 \<le> df" and h2: "h2 ! 0 = ?f"
    by simp_all
  from df have "df \<noteq> 0" by simp
  with fb h2 show ?thesis
    by (simp add: dashboard_def new_frame_def df_copy_def setitem_cnt_cluster_def Let_def
        split: sum.split)
qed

text \<open>
  C9.  For every choice of year and seasons, the table the loader returned is still at
  its address, unchanged and without a cluster column, when the run ends: the filter
  and the assignment of \<^verbatim>\<open>cnt_cluster\<close> work on other frames.
\<close>

theorem master_table_unchanged:
  assumes "fs ''day.csv'' = Some csv"
  shows "final_heap (app fs tahun musim) ! 0 = \<lparr>rows = map prep_row csv, cnt_cluster = None\<rparr>"
  using load_data_present[of fs "''day.csv''" csv] assms by (simp add: app_def dashboard_master)

theorem master_table_unchanged_witness:
  "final_heap (app example_fs (PyInt 2011) [''Spring'']) ! 0 =
     \<lparr>rows = example_table, cnt_cluster = None\<rparr>"
  using master_table_unchanged [of example_fs example_csv "PyInt 2011" "[''Spring'']"]
  by (simp add: example_fs_def example_csv_def example_table_def prep_row_def season_map_def
      weather_map_def workingday_map_def)

subsection \<open>The metrics\<close>









subsection \<open>The clustering\<close>

lemma linspace_4: "linspace a b 4 = [a, 1 * ((b - a) / 3) + a, 2 * ((b - a) / 3) + a, b]"
  by (simp add: linspace_def eval_nat_numeral upt_rec)






















lemma example_cluster_fallback:
  "pd_qcut [5, 5, 5, 5, 5, 5, 5, 5, 5, 10] 3 cluster_labels =
     Inl (ValueError ''Bin edges must be unique'') \<and>
   cnt_cluster_block [5, 5, 5, 5, 5, 5, 5, 5, 5, 10] =
     Inr \<lparr>codes = [0, 0, 0, 0, 0, 0, 0, 0, 0, 2], categories = cluster_labels\<rparr>"
  by code_simp



subsection \<open>The empty view\<close>

lemma pd_qcut_empty:
  "pd_qcut [] 3 cluster_labels = Inl (ValueError ''Bin edges must be unique'')"
  by (simp add: pd_qcut_def linspace_4 quantile_def bins_to_cuts_def)

lemma pd_cut_empty:
  "pd_cut [] 3 cluster_labels True = Inl (ValueError ''Cannot cut empty array'')"
  by (simp add: pd_cut_def nbins_to_bins_def)

lemma cnt_cluster_block_empty:
  "cnt_cluster_block [] = Inl (ValueError ''Cannot cut empty array'')"
  by (simp add: cnt_cluster_block_def pd_qcut_empty pd_cut_empty)

lemma dashboard_empty_view:
  assumes "filter (selected tahun musim) t = []"
  shows "outcome (dashboard t tahun musim) = Raised (ValueError ''Cannot cut empty array'')"
    and "elements (dashboard t tahun musim) = metric_elements (metrics_panel []) @ charts []"
proof -
  let ?f = "\<lparr>rows = t, cnt_cluster = None\<rparr>"
  obtain h2 df where fb: "filter_block [?f, ?f] 1 tahun musim = (h2, df)"
    by (cases "filter_block [?f, ?f] 1 tahun musim")
  from filter_block_rows[OF fb] assms have view: "rows (h2 ! df) = []"
    by simp
  show "outcome (dashboard t tahun musim) = Raised (ValueError ''Cannot cut empty array'')"
    using fb view by (simp add: dashboard_def new_frame_def df_copy_def cnt_cluster_block_empty)
  show "elements (dashboard t tahun musim) = metric_elements (metrics_panel []) @ charts []"
    using fb view by (simp add: dashboard_def new_frame_def df_copy_def cnt_cluster_block_empty)
qed

text \<open>
  C2 (the script does not do what the claim says).  Whenever the filter leaves no row,
  the four metrics are shown (the count is 0, the other three are NaN) and the four
  charts before the clustering get empty data, but the clustering block raises:
  \<^verbatim>\<open>pd.qcut\<close> raises \<^verbatim>\<open>ValueError\<close>, and \<^verbatim>\<open>pd.cut\<close> in the handler raises
  \<^verbatim>\<open>ValueError\<close> again (\<^verbatim>\<open>Cannot cut empty array\<close>), which nothing catches.  The two
  cluster charts are never drawn.
\<close>

theorem empty_view_raises:
  assumes "filter (selected tahun musim) t = []"
  shows "outcome (dashboard t tahun musim) = Raised (ValueError ''Cannot cut empty array'') \<and>
         elements (dashboard t tahun musim) =
           [StMetric ''Total Hari'' (Fin 0),
            StMetric ''Rata-rata Peminjaman / Hari'' NaN,
            StMetric ''Maksimum Peminjaman / Hari'' NaN,
            StMetric ''Minimum Peminjaman / Hari'' NaN,
            StPyplot (Scatterplot []),
            StPyplot (Scatterplot []),
            StPyplot (Boxplot []),
            StPyplot (Lineplot [])]"
  using dashboard_empty_view[OF assms]
  by (simp add: metric_elements_def metrics_panel_def series_mean_def series_max_def
      series_min_def charts_def monthly_def)

theorem empty_view_raises_witness:
  "outcome (app example_fs (PyStr ''All'') []) = Raised (ValueError ''Cannot cut empty array'') \<and>
   elements (app example_fs (PyStr ''All'') []) =
     [StMetric ''Total Hari'' (Fin 0),
      StMetric ''Rata-rata Peminjaman / Hari'' NaN,
      StMetric ''Maksimum Peminjaman / Hari'' NaN,
      StMetric ''Minimum Peminjaman / Hari'' NaN,
      StPyplot (Scatterplot []),
      StPyplot (Scatterplot []),
      StPyplot (Boxplot []),
      StPyplot (Lineplot [])]"
  using empty_view_raises [of "PyStr ''All''" "[]" "map prep_row example_csv"]
  by (simp add: app_def load_data_def read_csv_def example_fs_def selected_def)

text \<open>
  C3 (the script does not do what the claim says).  On the view with no rows the
  quantile binning raises, and the equal-width binning in the handler raises too: the
  block ends with that second error instead of a cluster column.
\<close>

theorem fallback_raises_on_empty_view:
  "pd_qcut [] 3 cluster_labels = Inl (ValueError ''Bin edges must be unique'') \<and>
   pd_cut [] 3 cluster_labels True = Inl (ValueError ''Cannot cut empty array'') \<and>
   cnt_cluster_block [] = Inl (ValueError ''Cannot cut empty array'')"
  by (simp add: pd_qcut_empty pd_cut_empty cnt_cluster_block_empty)

end
